theory Spec2Isabelle
  imports Main
begin

section \<open>Exceptions, call outcomes and the observable history\<close>

text \<open>
  The lifecycle code of \<^verbatim>\<open>src/main.py\<close> distinguishes three kinds of exception object:
  \<^item> \<^verbatim>\<open>asyncio.CancelledError\<close>, caught by the inner \<^verbatim>\<open>except\<close> of the shutdown loop; it
    derives from \<^verbatim>\<open>BaseException\<close> (Python 3.8 and later), not from \<^verbatim>\<open>Exception\<close>;
  \<^item> an instance of a class derived from \<^verbatim>\<open>Exception\<close>, caught by \<^verbatim>\<open>except Exception\<close>;
  \<^item> an instance of another class derived from \<^verbatim>\<open>BaseException\<close> (\<^verbatim>\<open>SystemExit\<close>,
    \<^verbatim>\<open>KeyboardInterrupt\<close>, \<^verbatim>\<open>GeneratorExit\<close>), caught by neither.
  The two strings are the class name and \<^verbatim>\<open>str(e)\<close>.
\<close>

datatype exc =
    CancelledError
  | Exception string string
  | BaseException string string

fun isinstance_Exception :: "exc \<Rightarrow> bool" where
  "isinstance_Exception (Exception c m) = True"
| "isinstance_Exception CancelledError = False"
| "isinstance_Exception (BaseException c m) = False"

fun exc_class :: "exc \<Rightarrow> string" where
  "exc_class CancelledError = ''CancelledError''"
| "exc_class (Exception c m) = c"
| "exc_class (BaseException c m) = c"

fun str :: "exc \<Rightarrow> string" where
  "str CancelledError = []"
| "str (Exception c m) = m"
| "str (BaseException c m) = m"

text \<open>
  An awaited call either returns, raises, or never returns. The value carried is the
  state the call leaves behind (a call that raises may have changed it before raising).
\<close>

datatype 'a outcome = Returns 'a | Raises exc 'a | Hangs

text \<open>A background task made by \<^verbatim>\<open>asyncio.create_task(..., name=...)\<close>, known by its name.\<close>

datatype task = Task string

text \<open>
  What an observer of a run can see, in order: the \<^verbatim>\<open>logger.info\<close> and
  \<^verbatim>\<open>logger.error\<close> lines (without their leading emoji), the constructor calls, the tasks
  created, and in shutdown each \<^verbatim>\<open>task.cancel()\<close>, each \<^verbatim>\<open>await task\<close> and each
  \<^verbatim>\<open>stop()\<close> call on a service.
\<close>

datatype event =
    LogInfo string
  | LogError string
  | Construct string
  | CreateTask string
  | Cancel task
  | Await task
  | Stop string

type_synonym 'a run = "'a outcome \<times> event list"

text \<open>Statements run one after the other: the second runs only if the first returned.\<close>

definition then_do :: "'a run \<Rightarrow> ('a \<Rightarrow> 'a run) \<Rightarrow> 'a run" where
  "then_do m f =
     (case m of
        (Returns a, evs) \<Rightarrow> (case f a of (r, evs') \<Rightarrow> (r, evs @ evs'))
      | (Raises e a, evs) \<Rightarrow> (Raises e a, evs)
      | (Hangs, evs) \<Rightarrow> (Hangs, evs))"

section \<open>Settings read by the lifecycle code\<close>

text \<open>Of \<^verbatim>\<open>config/settings.py\<close>, the fields that the health endpoint reads.\<close>

record APISettings =
  title :: string
  version :: string

record Settings =
  environment :: string
  api :: APISettings

definition default_settings :: Settings where
  "default_settings =
     \<lparr>environment = ''development'',
      api = \<lparr>title = ''Environmental Monitor API'', version = ''1.0.0''\<rparr>\<rparr>"

section \<open>The collaborators\<close>

text \<open>
  \<^verbatim>\<open>SensorSimulator\<close> and \<^verbatim>\<open>DataProcessor\<close> are imported by \<^verbatim>\<open>main.py\<close> from modules
  outside the sources at hand, and the tasks run on the asyncio event loop. They are
  parameters of the model: \<open>'s\<close> is the state of a service object, and a value of
  \<open>'s Collaborators\<close> fixes
  \<^item> what each constructor call does (\<open>Inl\<close> the exception it raises, \<open>Inr\<close> the new object),
  \<^item> what reading the attribute \<^verbatim>\<open>is_running\<close> of a service object gives,
  \<^item> what \<^verbatim>\<open>await service.stop()\<close> does to a service object,
  \<^item> what \<^verbatim>\<open>task.cancel()\<close> followed by \<^verbatim>\<open>await task\<close> gives for a task. A finished task
    gives the same result each time it is awaited, so this is a function of the task.
\<close>

record 's Collaborators =
  SensorSimulator_init :: "exc + 's"
  DataProcessor_init :: "exc + 's"
  is_running :: "'s \<Rightarrow> bool"
  sensor_stop :: "'s \<Rightarrow> 's outcome"
  processor_stop :: "'s \<Rightarrow> 's outcome"
  await_task :: "task \<Rightarrow> unit outcome"

section \<open>The Application class\<close>

record 's Application =
  settings :: Settings
  sensor_simulator :: "'s option"
  data_processor :: "'s option"
  background_tasks :: "task list"

definition Application_init :: "Settings \<Rightarrow> 's Application" where
  "Application_init st =
     \<lparr>settings = st, sensor_simulator = None, data_processor = None, background_tasks = []\<rparr>"

text \<open>Calling a method on \<^verbatim>\<open>None\<close> raises \<^verbatim>\<open>AttributeError\<close>.\<close>

definition attribute_error :: "string \<Rightarrow> exc" where
  "attribute_error attr =
     Exception ''AttributeError''
       ([CHR 0x27] @ ''NoneType'' @ [CHR 0x27] @ '' object has no attribute ''
        @ [CHR 0x27] @ attr @ [CHR 0x27])"

text \<open>
  \<^verbatim>\<open>_start_background_services\<close>: calling the coroutine function \<^verbatim>\<open>start()\<close> makes a
  coroutine object and runs none of its body; \<^verbatim>\<open>create_task\<close> schedules it and returns
  at once. The method has no suspension point, so no task runs before it returns.
\<close>

definition start_background_services :: "'s Application \<Rightarrow> 's Application run" where
  "start_background_services a =
     (case sensor_simulator a of
        None \<Rightarrow> (Raises (attribute_error ''start'') a, [])
      | Some s \<Rightarrow>
          let a1 = a\<lparr>background_tasks := background_tasks a @ [Task ''sensor_simulator'']\<rparr>;
              evs1 = [CreateTask ''sensor_simulator'']
          in (case data_processor a1 of
                None \<Rightarrow> (Raises (attribute_error ''start'') a1, evs1)
              | Some p \<Rightarrow>
                  (Returns (a1\<lparr>background_tasks :=
                               background_tasks a1 @ [Task ''data_processor'']\<rparr>),
                   evs1 @ [CreateTask ''data_processor'',
                           LogInfo ''Background services started''])))"

text \<open>The two constructor calls of \<^verbatim>\<open>startup\<close>, each followed by its assignment.\<close>

definition construct_sensor :: "'s Collaborators \<Rightarrow> 's Application \<Rightarrow> 's Application run" where
  "construct_sensor env a =
     (case SensorSimulator_init env of
        Inl e \<Rightarrow> (Raises e a, [Construct ''SensorSimulator''])
      | Inr s \<Rightarrow> (Returns (a\<lparr>sensor_simulator := Some s\<rparr>), [Construct ''SensorSimulator'']))"

definition construct_processor :: "'s Collaborators \<Rightarrow> 's Application \<Rightarrow> 's Application run" where
  "construct_processor env a =
     (case DataProcessor_init env of
        Inl e \<Rightarrow> (Raises e a, [Construct ''DataProcessor''])
      | Inr p \<Rightarrow> (Returns (a\<lparr>data_processor := Some p\<rparr>), [Construct ''DataProcessor'']))"

text \<open>
  \<^verbatim>\<open>startup\<close>: the body of the \<^verbatim>\<open>try\<close>, then the handler
  \<^verbatim>\<open>except Exception as e: logger.error(...); raise\<close>, which logs an instance of
  \<^verbatim>\<open>Exception\<close> and raises it again; any other exception passes through unlogged.
\<close>

definition startup_body :: "'s Collaborators \<Rightarrow> 's Application \<Rightarrow> 's Application run" where
  "startup_body env a =
     then_do (then_do (then_do (construct_sensor env a) (construct_processor env))
                start_background_services)
       (\<lambda>a'. (Returns a', [LogInfo ''System startup complete'']))"

definition startup :: "'s Collaborators \<Rightarrow> 's Application \<Rightarrow> 's Application run" where
  "startup env a =
     (case then_do (Returns a, [LogInfo ''Starting Environmental Monitor System''])
             (startup_body env) of
        (Raises e a', evs) \<Rightarrow>
          (Raises e a',
           if isinstance_Exception e then evs @ [LogError (''Startup failed: '' @ str e)]
           else evs)
      | r \<Rightarrow> r)"

text \<open>
  The loop of \<^verbatim>\<open>shutdown\<close> over \<^verbatim>\<open>self.background_tasks\<close>: cancel the task, await it,
  and pass over \<^verbatim>\<open>CancelledError\<close> only. The list itself is never changed.
\<close>

fun cancel_tasks :: "'s Collaborators \<Rightarrow> task list \<Rightarrow> unit run" where
  "cancel_tasks env [] = (Returns (), [])"
| "cancel_tasks env (t # ts) =
     (case await_task env t of
        Returns u \<Rightarrow>
          (case cancel_tasks env ts of (r, evs) \<Rightarrow> (r, Cancel t # Await t # evs))
      | Raises e u \<Rightarrow>
          if e = CancelledError
          then (case cancel_tasks env ts of (r, evs) \<Rightarrow> (r, Cancel t # Await t # evs))
          else (Raises e (), [Cancel t, Await t])
      | Hangs \<Rightarrow> (Hangs, [Cancel t, Await t]))"

definition stop_background_tasks :: "'s Collaborators \<Rightarrow> 's Application \<Rightarrow> 's Application run" where
  "stop_background_tasks env a =
     (case cancel_tasks env (background_tasks a) of
        (Returns u, evs) \<Rightarrow> (Returns a, evs)
      | (Raises e u, evs) \<Rightarrow> (Raises e a, evs)
      | (Hangs, evs) \<Rightarrow> (Hangs, evs))"

text \<open>
  \<^verbatim>\<open>if self.sensor_simulator: await self.sensor_simulator.stop()\<close>, and the same for
  the data processor. An object of a class that defines neither \<^verbatim>\<open>__bool__\<close> nor
  \<^verbatim>\<open>__len__\<close> is true, so the test is whether the field is \<^verbatim>\<open>None\<close>.
\<close>

definition stop_sensors :: "'s Collaborators \<Rightarrow> 's Application \<Rightarrow> 's Application run" where
  "stop_sensors env a =
     (case sensor_simulator a of
        None \<Rightarrow> (Returns a, [])
      | Some s \<Rightarrow>
          (case sensor_stop env s of
             Returns s' \<Rightarrow> (Returns (a\<lparr>sensor_simulator := Some s'\<rparr>), [Stop ''sensor_simulator''])
           | Raises e s' \<Rightarrow> (Raises e (a\<lparr>sensor_simulator := Some s'\<rparr>), [Stop ''sensor_simulator''])
           | Hangs \<Rightarrow> (Hangs, [Stop ''sensor_simulator''])))"

definition stop_data_processor :: "'s Collaborators \<Rightarrow> 's Application \<Rightarrow> 's Application run" where
  "stop_data_processor env a =
     (case data_processor a of
        None \<Rightarrow> (Returns a, [])
      | Some p \<Rightarrow>
          (case processor_stop env p of
             Returns p' \<Rightarrow> (Returns (a\<lparr>data_processor := Some p'\<rparr>), [Stop ''data_processor''])
           | Raises e p' \<Rightarrow> (Raises e (a\<lparr>data_processor := Some p'\<rparr>), [Stop ''data_processor''])
           | Hangs \<Rightarrow> (Hangs, [Stop ''data_processor''])))"

text \<open>
  \<^verbatim>\<open>shutdown\<close>: the body of the \<^verbatim>\<open>try\<close>, then the handler
  \<^verbatim>\<open>except Exception as e: logger.error(...)\<close>, which logs an instance of \<^verbatim>\<open>Exception\<close>
  and returns; any other exception leaves \<^verbatim>\<open>shutdown\<close>.
\<close>

definition shutdown_body :: "'s Collaborators \<Rightarrow> 's Application \<Rightarrow> 's Application run" where
  "shutdown_body env a =
     then_do (then_do (then_do (stop_background_tasks env a) (stop_sensors env))
                (stop_data_processor env))
       (\<lambda>a'. (Returns a', [LogInfo ''Shutdown complete'']))"

definition shutdown :: "'s Collaborators \<Rightarrow> 's Application \<Rightarrow> 's Application run" where
  "shutdown env a =
     (case then_do (Returns a, [LogInfo ''Shutting down Environmental Monitor System''])
             (shutdown_body env) of
        (Raises e a', evs) \<Rightarrow>
          if isinstance_Exception e
          then (Returns a', evs @ [LogError (''Shutdown error: '' @ str e)])
          else (Raises e a', evs)
      | r \<Rightarrow> r)"

section \<open>The health endpoint\<close>

text \<open>The dictionary that \<^verbatim>\<open>health_check\<close> returns, keys in the order of the source.\<close>

datatype json = JStr string | JBool bool | JDict "(string \<times> json) list"

fun get :: "json \<Rightarrow> string \<Rightarrow> json option" where
  "get (JDict kvs) k = map_of kvs k"
| "get j k = None"

definition health_check :: "'s Collaborators \<Rightarrow> Settings \<Rightarrow> 's Application \<Rightarrow> json" where
  "health_check env st a =
     JDict
       [(''status'', JStr ''healthy''),
        (''environment'', JStr (environment st)),
        (''version'', JStr (version (api st))),
        (''services'',
         JDict
           [(''sensors'',
             JBool (case sensor_simulator a of Some s \<Rightarrow> is_running env s | None \<Rightarrow> False)),
            (''processor'',
             JBool (case data_processor a of Some p \<Rightarrow> is_running env p | None \<Rightarrow> False))])]"

section \<open>Reachable states\<close>

text \<open>
  The states an \<^verbatim>\<open>Application\<close> object can be in: as \<^verbatim>\<open>__init__\<close> leaves it, after a
  \<^verbatim>\<open>startup()\<close> or a \<^verbatim>\<open>shutdown()\<close> that returned or raised, and after the service
  objects have changed on their own account (their background tasks run between the calls).
  Each call meets collaborators of its own: a constructor or a \<^verbatim>\<open>stop()\<close> need not do at
  the second call what it did at the first.
\<close>

inductive reachable :: "Settings \<Rightarrow> 's Application \<Rightarrow> bool" for st :: Settings where
  init: "reachable st (Application_init st)"
| startup_returns: "reachable st a \<Longrightarrow> fst (startup env a) = Returns a' \<Longrightarrow> reachable st a'"
| startup_raises: "reachable st a \<Longrightarrow> fst (startup env a) = Raises e a' \<Longrightarrow> reachable st a'"
| shutdown_returns: "reachable st a \<Longrightarrow> fst (shutdown env a) = Returns a' \<Longrightarrow> reachable st a'"
| shutdown_raises: "reachable st a \<Longrightarrow> fst (shutdown env a) = Raises e a' \<Longrightarrow> reachable st a'"
| service_activity:
    "reachable st a \<Longrightarrow>
     reachable st
       (a\<lparr>sensor_simulator := map_option f (sensor_simulator a),
          data_processor := map_option g (data_processor a)\<rparr>)"

text \<open>Classes of events.\<close>

fun is_task_event :: "event \<Rightarrow> bool" where
  "is_task_event (Cancel t) = True"
| "is_task_event (Await t) = True"
| "is_task_event ev = False"

fun is_stop_event :: "event \<Rightarrow> bool" where
  "is_stop_event (Stop n) = True"
| "is_stop_event ev = False"

fun is_create_event :: "event \<Rightarrow> bool" where
  "is_create_event (CreateTask n) = True"
| "is_create_event ev = False"

fun is_construct_event :: "event \<Rightarrow> bool" where
  "is_construct_event (Construct c) = True"
| "is_construct_event ev = False"

section \<open>Concrete collaborators\<close>

text \<open>
  Services whose state is their \<^verbatim>\<open>is_running\<close> flag: constructed not running, stopped by
  \<^verbatim>\<open>stop()\<close>, with tasks that end with \<^verbatim>\<open>CancelledError\<close> when cancelled and awaited.
\<close>

definition env_quiet :: "bool Collaborators" where
  "env_quiet =
     \<lparr>SensorSimulator_init = Inr False,
      DataProcessor_init = Inr False,
      is_running = (\<lambda>s. s),
      sensor_stop = (\<lambda>s. Returns False),
      processor_stop = (\<lambda>s. Returns False),
      await_task = (\<lambda>t. Raises CancelledError ())\<rparr>"

definition sensor_task :: task where
  "sensor_task = Task ''sensor_simulator''"

definition processor_task :: task where
  "processor_task = Task ''data_processor''"

text \<open>The state right after \<^verbatim>\<open>startup()\<close> with these services.\<close>

definition app_started :: "bool Application" where
  "app_started =
     \<lparr>settings = default_settings, sensor_simulator = Some False, data_processor = Some False,
      background_tasks = [sensor_task, processor_task]\<rparr>"

text \<open>Later on: the sensor simulator has failed, the data processor is at work.\<close>

definition app_running :: "bool Application" where
  "app_running =
     \<lparr>settings = default_settings, sensor_simulator = Some False, data_processor = Some True,
      background_tasks = [sensor_task, processor_task]\<rparr>"

text \<open>A constructor that raises \<^verbatim>\<open>ValueError("config missing")\<close>.\<close>

definition config_missing :: exc where
  "config_missing = Exception ''ValueError'' ''config missing''"

definition env_no_sensor :: "bool Collaborators" where
  "env_no_sensor = env_quiet\<lparr>SensorSimulator_init := Inl config_missing\<rparr>"

definition env_no_processor :: "bool Collaborators" where
  "env_no_processor = env_quiet\<lparr>DataProcessor_init := Inl config_missing\<rparr>"

text \<open>A task that ignores its cancellation and runs on; a \<^verbatim>\<open>stop()\<close> that never returns.\<close>

definition env_deaf_task :: "bool Collaborators" where
  "env_deaf_task = env_quiet\<lparr>await_task := (\<lambda>t. Hangs)\<rparr>"

definition env_stop_hangs :: "bool Collaborators" where
  "env_stop_hangs = env_quiet\<lparr>sensor_stop := (\<lambda>s. Hangs)\<rparr>"

text \<open>A \<^verbatim>\<open>stop()\<close> that calls \<^verbatim>\<open>sys.exit()\<close>, and one that raises \<^verbatim>\<open>OSError\<close>.\<close>

definition env_stop_exits :: "bool Collaborators" where
  "env_stop_exits = env_quiet\<lparr>sensor_stop := (\<lambda>s. Raises (BaseException ''SystemExit'' []) s)\<rparr>"

definition env_stop_fails :: "bool Collaborators" where
  "env_stop_fails =
     env_quiet\<lparr>sensor_stop := (\<lambda>s. Raises (Exception ''OSError'' ''disk full'') s)\<rparr>"

text \<open>A \<^verbatim>\<open>stop()\<close> of the data processor that is interrupted from the keyboard.\<close>

definition env_processor_interrupted :: "bool Collaborators" where
  "env_processor_interrupted =
     env_quiet\<lparr>processor_stop := (\<lambda>s. Raises (BaseException ''KeyboardInterrupt'' []) s)\<rparr>"

text \<open>The sensor task has ended with \<^verbatim>\<open>RuntimeError("sensor failure")\<close>.\<close>

definition env_crashed_sensor :: "bool Collaborators" where
  "env_crashed_sensor =
     env_quiet\<lparr>await_task :=
       (\<lambda>t. if t = sensor_task then Raises (Exception ''RuntimeError'' ''sensor failure'') ()
            else Raises CancelledError ())\<rparr>"

text \<open>
  Services whose state is the \<^verbatim>\<open>is_running\<close> flag and whether \<^verbatim>\<open>stop()\<close> was tried
  before. The sensor simulator's first \<^verbatim>\<open>stop()\<close> raises \<^verbatim>\<open>OSError\<close>, every later one
  stops it; the data processor's \<^verbatim>\<open>stop()\<close> stops it.
\<close>

definition env_flaky_stop :: "(bool \<times> bool) Collaborators" where
  "env_flaky_stop =
     \<lparr>SensorSimulator_init = Inr (False, False),
      DataProcessor_init = Inr (False, False),
      is_running = fst,
      sensor_stop =
        (\<lambda>(r, tried). if tried then Returns (False, True)
                       else Raises (Exception ''OSError'' ''disk full'') (r, True)),
      processor_stop = (\<lambda>(r, tried). Returns (False, tried)),
      await_task = (\<lambda>t. Raises CancelledError ())\<rparr>"

definition app_flaky :: "bool \<Rightarrow> bool \<Rightarrow> bool \<Rightarrow> (bool \<times> bool) Application" where
  "app_flaky sensor_runs tried processor_runs =
     \<lparr>settings = default_settings,
      sensor_simulator = Some (sensor_runs, tried),
      data_processor = Some (processor_runs, False),
      background_tasks = [sensor_task, processor_task]\<rparr>"

section \<open>Unfolding the lifecycle methods\<close>

lemmas startup_defs = startup_def startup_body_def then_do_def
  construct_sensor_def construct_processor_def start_background_services_def

lemmas shutdown_defs = shutdown_def shutdown_body_def then_do_def
  stop_background_tasks_def stop_sensors_def stop_data_processor_def

lemmas scenario_defs = env_quiet_def app_started_def app_running_def Application_init_def
  sensor_task_def processor_task_def env_no_sensor_def env_no_processor_def config_missing_def
  env_deaf_task_def env_stop_hangs_def env_stop_exits_def env_stop_fails_def
  env_crashed_sensor_def env_flaky_stop_def app_flaky_def default_settings_def
  env_processor_interrupted_def

text \<open>The three ways \<^verbatim>\<open>startup\<close> can go, decided by the two constructors alone.\<close>

lemma startup_sensor_fails:
  assumes "SensorSimulator_init env = Inl e"
  shows "startup env a =
    (Raises e a,
     [LogInfo ''Starting Environmental Monitor System'', Construct ''SensorSimulator'']
     @ (if isinstance_Exception e then [LogError (''Startup failed: '' @ str e)] else []))"
  using assms by (simp add: startup_defs)

lemma startup_processor_fails:
  assumes "SensorSimulator_init env = Inr s" and "DataProcessor_init env = Inl e"
  shows "startup env a =
    (Raises e (a\<lparr>sensor_simulator := Some s\<rparr>),
     [LogInfo ''Starting Environmental Monitor System'', Construct ''SensorSimulator'',
      Construct ''DataProcessor'']
     @ (if isinstance_Exception e then [LogError (''Startup failed: '' @ str e)] else []))"
  using assms by (simp add: startup_defs)

lemma startup_succeeds:
  assumes "SensorSimulator_init env = Inr s" and "DataProcessor_init env = Inr p"
  shows "startup env a =
    (Returns (a\<lparr>sensor_simulator := Some s, data_processor := Some p,
                background_tasks :=
                  background_tasks a @ [Task ''sensor_simulator'', Task ''data_processor'']\<rparr>),
     [LogInfo ''Starting Environmental Monitor System'', Construct ''SensorSimulator'',
      Construct ''DataProcessor'', CreateTask ''sensor_simulator'',
      CreateTask ''data_processor'', LogInfo ''Background services started'',
      LogInfo ''System startup complete''])"
  using assms by (simp add: startup_defs)

lemma startup_returns_iff:
  "fst (startup env a) = Returns a' \<longleftrightarrow>
     (\<exists>s p. SensorSimulator_init env = Inr s \<and> DataProcessor_init env = Inr p \<and>
        a' = a\<lparr>sensor_simulator := Some s, data_processor := Some p,
                background_tasks :=
                  background_tasks a @ [Task ''sensor_simulator'', Task ''data_processor'']\<rparr>)"
proof (cases "SensorSimulator_init env")
  case (Inl e)
  then show ?thesis by (simp add: startup_sensor_fails)
next
  case sensor: (Inr s)
  show ?thesis
  proof (cases "DataProcessor_init env")
    case (Inl e)
    with sensor show ?thesis by (simp add: startup_processor_fails)
  next
    case (Inr p)
    with sensor show ?thesis by (auto simp add: startup_succeeds)
  qed
qed

section \<open>The health status (C1)\<close>

text \<open>
  C1, as the specification states it: after a successful \<^verbatim>\<open>startup()\<close> the status is
  \<^verbatim>\<open>healthy\<close> exactly when every service is running, and \<^verbatim>\<open>degraded\<close> otherwise. The
  source disagrees: right after \<^verbatim>\<open>startup()\<close> has returned, with two services that are
  not running, the endpoint answers \<^verbatim>\<open>healthy\<close>.
\<close>

theorem health_status_counterexample:
  "fst (startup env_quiet (Application_init default_settings)) = Returns app_started \<and>
   health_check env_quiet default_settings app_started =
     JDict [(''status'', JStr ''healthy''), (''environment'', JStr ''development''),
            (''version'', JStr ''1.0.0''),
            (''services'', JDict [(''sensors'', JBool False), (''processor'', JBool False)])]"
  by (simp add: startup_defs scenario_defs health_check_def)

text \<open>
  C1, amended: after a successful \<^verbatim>\<open>startup()\<close> both services exist, the status is the
  constant \<^verbatim>\<open>healthy\<close> whatever the services report, and the two flags under
  \<^verbatim>\<open>services\<close> are the \<^verbatim>\<open>is_running\<close> attributes of the two services.
\<close>

theorem health_status_always_healthy:
  assumes "fst (startup env a) = Returns a'"
  shows "\<exists>s p. sensor_simulator a' = Some s \<and> data_processor a' = Some p \<and>
           health_check env st a' =
             JDict [(''status'', JStr ''healthy''), (''environment'', JStr (environment st)),
                    (''version'', JStr (version (api st))),
                    (''services'', JDict [(''sensors'', JBool (is_running env s)),
                                          (''processor'', JBool (is_running env p))])]"
  using assms unfolding startup_returns_iff by (auto simp add: health_check_def)

theorem health_status_always_healthy_witness:
  "fst (startup env_quiet (Application_init default_settings)) = Returns app_started \<and>
   get (health_check env_quiet default_settings app_started) ''status'' = Some (JStr ''healthy'') \<and>
   sensor_simulator app_started = Some False \<and> \<not> is_running env_quiet False"
proof -
  have h: "fst (startup env_quiet (Application_init default_settings)) = Returns app_started"
    by (simp add: startup_defs scenario_defs)
  from health_status_always_healthy [OF h, of default_settings]
  obtain s p where "health_check env_quiet default_settings app_started =
      JDict [(''status'', JStr ''healthy''),
             (''environment'', JStr (environment default_settings)),
             (''version'', JStr (version (api default_settings))),
             (''services'', JDict [(''sensors'', JBool (is_running env_quiet s)),
                                   (''processor'', JBool (is_running env_quiet p))])]"
    by blast
  then have "get (health_check env_quiet default_settings app_started) ''status''
               = Some (JStr ''healthy'')"
    by simp
  with h show ?thesis by (simp add: app_started_def env_quiet_def)
qed

lemma startup_raises_cases:
  assumes "fst (startup env a) = Raises e a'"
  shows "(SensorSimulator_init env = Inl e \<and> a' = a) \<or>
         (\<exists>s. SensorSimulator_init env = Inr s \<and> DataProcessor_init env = Inl e \<and>
              a' = a\<lparr>sensor_simulator := Some s\<rparr>)"
proof (cases "SensorSimulator_init env")
  case (Inl e')
  with assms show ?thesis by (simp add: startup_sensor_fails)
next
  case sensor: (Inr s)
  show ?thesis
  proof (cases "DataProcessor_init env")
    case (Inl e')
    with sensor assms show ?thesis by (simp add: startup_processor_fails)
  next
    case (Inr p)
    with sensor assms show ?thesis by (simp add: startup_succeeds)
  qed
qed

lemma shutdown_fresh:
  "shutdown env (Application_init st) =
     (Returns (Application_init st),
      [LogInfo ''Shutting down Environmental Monitor System'', LogInfo ''Shutdown complete''])"
  by (simp add: shutdown_defs Application_init_def)

section \<open>No lifecycle guard (C2)\<close>

text \<open>
  C2, as the specification states it: \<^verbatim>\<open>shutdown()\<close> before any \<^verbatim>\<open>startup()\<close>, and
  \<^verbatim>\<open>startup()\<close> after a \<^verbatim>\<open>startup()\<close>, fail with \<^verbatim>\<open>InvalidLifecycleTransition\<close>. In the
  source both return normally: \<^verbatim>\<open>shutdown()\<close> on a new \<^verbatim>\<open>Application\<close> logs two lines and
  changes nothing, and a second \<^verbatim>\<open>startup()\<close> constructs the services again and adds two
  more tasks to the two already there.
\<close>

theorem lifecycle_guard_counterexample:
  "shutdown env_quiet (Application_init default_settings) =
     (Returns (Application_init default_settings),
      [LogInfo ''Shutting down Environmental Monitor System'', LogInfo ''Shutdown complete'']) \<and>
   fst (startup env_quiet (Application_init default_settings)) = Returns app_started \<and>
   fst (startup env_quiet app_started) =
     Returns (app_started\<lparr>background_tasks :=
                [sensor_task, processor_task, sensor_task, processor_task]\<rparr>)"
  by (simp add: shutdown_defs startup_defs scenario_defs)

text \<open>
  C2, amended: the \<^verbatim>\<open>Application\<close> keeps no lifecycle state and raises no
  \<^verbatim>\<open>InvalidLifecycleTransition\<close>. \<^verbatim>\<open>shutdown()\<close> before any \<^verbatim>\<open>startup()\<close> returns normally
  and leaves the object unchanged; \<^verbatim>\<open>startup()\<close> in any state, also after an earlier
  \<^verbatim>\<open>startup()\<close>, returns normally whenever both constructors do, replacing the two services
  and appending two tasks.
\<close>

theorem lifecycle_not_guarded:
  "shutdown env (Application_init st) =
     (Returns (Application_init st),
      [LogInfo ''Shutting down Environmental Monitor System'', LogInfo ''Shutdown complete'']) \<and>
   (SensorSimulator_init env = Inr s \<and> DataProcessor_init env = Inr p \<longrightarrow>
      fst (startup env a) =
        Returns (a\<lparr>sensor_simulator := Some s, data_processor := Some p,
                   background_tasks :=
                     background_tasks a @ [Task ''sensor_simulator'', Task ''data_processor'']\<rparr>))"
  by (simp add: shutdown_fresh startup_succeeds)

theorem lifecycle_not_guarded_witness:
  "SensorSimulator_init env_quiet = Inr False \<and> DataProcessor_init env_quiet = Inr False \<and>
   fst (shutdown env_quiet (Application_init default_settings))
     = Returns (Application_init default_settings) \<and>
   fst (startup env_quiet app_started) =
     Returns (app_started\<lparr>background_tasks :=
                [sensor_task, processor_task, sensor_task, processor_task]\<rparr>)"
  using lifecycle_not_guarded [of env_quiet default_settings False False app_started]
  by (simp add: scenario_defs)

section \<open>A failed startup (C3, C7)\<close>

text \<open>
  C3, as the specification states it: when the second service fails, \<^verbatim>\<open>stop()\<close> has been
  called once on the first before \<^verbatim>\<open>startup()\<close> raises. In the source the handler of
  \<^verbatim>\<open>startup\<close> logs and raises again, and calls no \<^verbatim>\<open>stop()\<close>: with a \<^verbatim>\<open>DataProcessor\<close>
  constructor that raises, the sensor simulator is constructed, kept, and never stopped.
\<close>

theorem rollback_counterexample:
  "startup env_no_processor (Application_init default_settings) =
     (Raises (Exception ''ValueError'' ''config missing'')
        ((Application_init default_settings)\<lparr>sensor_simulator := Some False\<rparr>),
      [LogInfo ''Starting Environmental Monitor System'', Construct ''SensorSimulator'',
       Construct ''DataProcessor'', LogError ''Startup failed: config missing'']) \<and>
   length (filter is_stop_event
     (snd (startup env_no_processor (Application_init default_settings)))) = 0"
  by (simp add: startup_defs scenario_defs)

text \<open>
  C3, amended: whenever \<^verbatim>\<open>startup()\<close> raises, it is because one of the two constructors
  raised, and it raises that very exception; the remaining steps are aborted (no task is
  created, the task list is as before), and no \<^verbatim>\<open>stop()\<close> is called on any service:
  there is no rollback.
\<close>

theorem startup_failure_no_rollback:
  assumes "fst (startup env a) = Raises e a'"
  shows "filter is_stop_event (snd (startup env a)) = [] \<and>
         filter is_create_event (snd (startup env a)) = [] \<and>
         background_tasks a' = background_tasks a \<and>
         (SensorSimulator_init env = Inl e \<or> DataProcessor_init env = Inl e)"
  using startup_raises_cases [OF assms]
  by (auto simp add: startup_sensor_fails startup_processor_fails)

theorem startup_failure_no_rollback_witness:
  "fst (startup env_no_processor (Application_init default_settings)) =
     Raises config_missing ((Application_init default_settings)\<lparr>sensor_simulator := Some False\<rparr>) \<and>
   filter is_stop_event (snd (startup env_no_processor (Application_init default_settings))) = [] \<and>
   DataProcessor_init env_no_processor = Inl config_missing"
proof -
  have h: "fst (startup env_no_processor (Application_init default_settings)) =
     Raises config_missing ((Application_init default_settings)\<lparr>sensor_simulator := Some False\<rparr>)"
    by (simp add: startup_defs scenario_defs)
  from startup_failure_no_rollback [OF h] h show ?thesis
    by (simp add: env_no_processor_def)
qed

text \<open>
  C7, as the specification states it: when \<^verbatim>\<open>sensors\<close> fails with cause
  \<^verbatim>\<open>config missing\<close>, \<^verbatim>\<open>startup()\<close> raises a \<^verbatim>\<open>StartupError\<close> naming the unit. In the source
  the exception of the constructor leaves \<^verbatim>\<open>startup()\<close> as it is: a \<^verbatim>\<open>ValueError\<close> stays
  a \<^verbatim>\<open>ValueError\<close>, and nothing names the unit.
\<close>

theorem startup_error_counterexample:
  "startup env_no_sensor (Application_init default_settings) =
     (Raises (Exception ''ValueError'' ''config missing'') (Application_init default_settings),
      [LogInfo ''Starting Environmental Monitor System'', Construct ''SensorSimulator'',
       LogError ''Startup failed: config missing'']) \<and>
   exc_class (Exception ''ValueError'' ''config missing'') \<noteq> ''StartupError''"
  by (simp add: startup_defs scenario_defs)

text \<open>
  C7, amended: when the constructor of the sensor simulator raises an exception,
  \<^verbatim>\<open>startup()\<close> raises that same exception unchanged (no \<^verbatim>\<open>StartupError\<close> wraps it and
  no unit name is attached), after logging \<^verbatim>\<open>Startup failed:\<close> with its text when it is an
  instance of \<^verbatim>\<open>Exception\<close>; the \<^verbatim>\<open>Application\<close> is left as it was, with no service set
  and no task created.
\<close>

theorem startup_reraises_cause:
  assumes "SensorSimulator_init env = Inl e"
  shows "fst (startup env a) = Raises e a \<and>
         filter is_create_event (snd (startup env a)) = [] \<and>
         (isinstance_Exception e \<longrightarrow>
            last (snd (startup env a)) = LogError (''Startup failed: '' @ str e))"
  by (simp add: startup_sensor_fails [OF assms])

theorem startup_reraises_cause_witness:
  "SensorSimulator_init env_no_sensor = Inl config_missing \<and>
   isinstance_Exception config_missing \<and>
   fst (startup env_no_sensor (Application_init default_settings))
     = Raises config_missing (Application_init default_settings) \<and>
   last (snd (startup env_no_sensor (Application_init default_settings)))
     = LogError ''Startup failed: config missing''"
proof -
  have h: "SensorSimulator_init env_no_sensor = Inl config_missing"
    by (simp add: env_no_sensor_def)
  have i: "isinstance_Exception config_missing"
    by (simp add: config_missing_def)
  from startup_reraises_cause [OF h, of "Application_init default_settings"] h i
  show ?thesis by (simp add: config_missing_def)
qed

section \<open>The shutdown loop\<close>

text \<open>
  The loop handles the tasks in list order, one at a time: it cancels a task, awaits it,
  and only then turns to the next. It stops at the first task whose \<^verbatim>\<open>await\<close> raises
  something other than \<^verbatim>\<open>CancelledError\<close> or does not return.
\<close>

lemma cancel_tasks_events:
  "\<exists>n\<le>length ts.
     snd (cancel_tasks env ts) = concat (map (\<lambda>t. [Cancel t, Await t]) (take n ts)) \<and>
     (fst (cancel_tasks env ts) = Returns () \<longrightarrow> n = length ts)"
proof (induction ts)
  case Nil
  show ?case by simp
next
  case (Cons t ts)
  then obtain n where n: "n \<le> length ts"
    "snd (cancel_tasks env ts) = concat (map (\<lambda>t. [Cancel t, Await t]) (take n ts))"
    "fst (cancel_tasks env ts) = Returns () \<longrightarrow> n = length ts"
    by blast
  show ?case
  proof (cases "await_task env t = Hangs \<or>
                (\<exists>e. e \<noteq> CancelledError \<and> await_task env t = Raises e ())")
    case True
    then have "snd (cancel_tasks env (t # ts)) = [Cancel t, Await t]"
      and "fst (cancel_tasks env (t # ts)) \<noteq> Returns ()"
      by auto
    then show ?thesis by (intro exI [of _ 1]) simp
  next
    case False
    then have "cancel_tasks env (t # ts) =
        (fst (cancel_tasks env ts), Cancel t # Await t # snd (cancel_tasks env ts))"
      by (cases "await_task env t") (auto split: prod.splits)
    with n show ?thesis by (intro exI [of _ "Suc n"]) simp
  qed
qed

lemma cancel_tasks_not_hangs:
  "\<forall>t\<in>set ts. await_task env t \<noteq> Hangs \<Longrightarrow> fst (cancel_tasks env ts) \<noteq> Hangs"
  by (induction ts) (auto split: outcome.splits prod.splits)

lemma cancel_tasks_raises:
  "fst (cancel_tasks env ts) = Raises e u \<Longrightarrow>
     e \<noteq> CancelledError \<and> (\<exists>t\<in>set ts. await_task env t = Raises e ())"
  by (induction ts) (auto split: outcome.splits prod.splits if_splits)

section \<open>Shutdown has no timeout (C4)\<close>

text \<open>
  C4, as the specification states it: \<^verbatim>\<open>shutdown()\<close> returns within a bounded time even
  if a unit ignores its cancellation or a \<^verbatim>\<open>stop()\<close> hangs. The source awaits each task
  and each \<^verbatim>\<open>stop()\<close> without a deadline: with a task that never finishes, or with a
  \<^verbatim>\<open>stop()\<close> that never returns, \<^verbatim>\<open>shutdown()\<close> never returns.
\<close>

theorem shutdown_hangs_counterexample:
  "fst (shutdown env_deaf_task app_started) = Hangs \<and>
   fst (shutdown env_stop_hangs app_started) = Hangs"
  by (simp add: shutdown_defs scenario_defs)

text \<open>
  C4, amended: \<^verbatim>\<open>shutdown()\<close> has no timeout. It comes to an end provided every task of
  the list ends when cancelled and awaited and the \<^verbatim>\<open>stop()\<close> of each service present
  comes to an end; if the first task of the list never ends, \<^verbatim>\<open>shutdown()\<close> never
  returns.
\<close>

theorem shutdown_ends_if_collaborators_do:
  "((\<forall>t\<in>set (background_tasks a). await_task env t \<noteq> Hangs) \<and>
    (\<forall>s. sensor_simulator a = Some s \<longrightarrow> sensor_stop env s \<noteq> Hangs) \<and>
    (\<forall>p. data_processor a = Some p \<longrightarrow> processor_stop env p \<noteq> Hangs)
      \<longrightarrow> fst (shutdown env a) \<noteq> Hangs) \<and>
   (\<forall>t ts. background_tasks a = t # ts \<and> await_task env t = Hangs
      \<longrightarrow> fst (shutdown env a) = Hangs)"
proof (intro conjI impI allI)
  assume h: "(\<forall>t\<in>set (background_tasks a). await_task env t \<noteq> Hangs) \<and>
    (\<forall>s. sensor_simulator a = Some s \<longrightarrow> sensor_stop env s \<noteq> Hangs) \<and>
    (\<forall>p. data_processor a = Some p \<longrightarrow> processor_stop env p \<noteq> Hangs)"
  then have "fst (cancel_tasks env (background_tasks a)) \<noteq> Hangs"
    by (simp add: cancel_tasks_not_hangs)
  with h show "fst (shutdown env a) \<noteq> Hangs"
    by (auto simp add: shutdown_defs split: prod.splits outcome.splits option.splits)
next
  fix t ts
  assume "background_tasks a = t # ts \<and> await_task env t = Hangs"
  then show "fst (shutdown env a) = Hangs"
    by (simp add: shutdown_defs)
qed

theorem shutdown_ends_if_collaborators_do_witness:
  "fst (shutdown env_quiet app_started) \<noteq> Hangs \<and>
   background_tasks app_started = sensor_task # [processor_task] \<and>
   await_task env_deaf_task sensor_task = Hangs \<and>
   fst (shutdown env_deaf_task app_started) = Hangs"
proof -
  have 1: "(\<forall>t\<in>set (background_tasks app_started). await_task env_quiet t \<noteq> Hangs) \<and>
   (\<forall>s. sensor_simulator app_started = Some s \<longrightarrow> sensor_stop env_quiet s \<noteq> Hangs) \<and>
   (\<forall>p. data_processor app_started = Some p \<longrightarrow> processor_stop env_quiet p \<noteq> Hangs)"
    by (simp add: env_quiet_def app_started_def)
  have 2: "background_tasks app_started = sensor_task # [processor_task] \<and>
     await_task env_deaf_task sensor_task = Hangs"
    by (simp add: env_deaf_task_def env_quiet_def app_started_def)
  from shutdown_ends_if_collaborators_do [of app_started env_quiet] 1
  have 3: "fst (shutdown env_quiet app_started) \<noteq> Hangs" by blast
  from shutdown_ends_if_collaborators_do [of app_started env_deaf_task] 2
  have 4: "fst (shutdown env_deaf_task app_started) = Hangs" by blast
  from 1 2 3 4 show ?thesis by blast
qed

section \<open>Exceptions during shutdown (C5)\<close>

text \<open>
  The loop passes over the tasks whose \<^verbatim>\<open>await\<close> returns or raises \<^verbatim>\<open>CancelledError\<close>.
\<close>

lemma cancel_tasks_passes:
  "\<forall>t\<in>set ts. await_task env t = Returns () \<or> await_task env t = Raises CancelledError () \<Longrightarrow>
   cancel_tasks env (ts @ us) =
     (fst (cancel_tasks env us),
      concat (map (\<lambda>t. [Cancel t, Await t]) ts) @ snd (cancel_tasks env us))"
  by (induction ts) (auto split: prod.splits)

lemma cancel_tasks_stops_at:
  assumes "\<forall>t\<in>set ts. await_task env t = Returns () \<or> await_task env t = Raises CancelledError ()"
    and "await_task env t = Raises e ()" and "e \<noteq> CancelledError"
  shows "cancel_tasks env (ts @ t # us) =
     (Raises e (), concat (map (\<lambda>t. [Cancel t, Await t]) (ts @ [t])))"
  using assms by (simp add: cancel_tasks_passes)

text \<open>
  C5, as the specification states it: \<^verbatim>\<open>shutdown()\<close> never raises, whatever the services
  do. The handler of the source is \<^verbatim>\<open>except Exception\<close>, which lets through every
  exception that is not an instance of \<^verbatim>\<open>Exception\<close>: a \<^verbatim>\<open>stop()\<close> that ends in
  \<^verbatim>\<open>SystemExit\<close> makes \<^verbatim>\<open>shutdown()\<close> raise it, with nothing logged.
\<close>

theorem shutdown_raises_counterexample:
  "shutdown env_stop_exits app_started =
     (Raises (BaseException ''SystemExit'' []) app_started,
      [LogInfo ''Shutting down Environmental Monitor System'',
       Cancel sensor_task, Await sensor_task, Cancel processor_task, Await processor_task,
       Stop ''sensor_simulator''])"
  by (simp add: shutdown_defs scenario_defs)

text \<open>
  C5, amended: \<^verbatim>\<open>shutdown()\<close> keeps back the instances of \<^verbatim>\<open>Exception\<close> and no others.
  No instance of \<^verbatim>\<open>Exception\<close> leaves it. When the \<^verbatim>\<open>await\<close> of a task raises an
  exception other than \<^verbatim>\<open>CancelledError\<close> (the tasks before it having been passed over),
  or when, the tasks done, the \<^verbatim>\<open>stop()\<close> of the sensor simulator raises, or when after
  that the \<^verbatim>\<open>stop()\<close> of the data processor raises, then: an instance of \<^verbatim>\<open>Exception\<close>
  is logged as \<^verbatim>\<open>Shutdown error:\<close> with its text and \<^verbatim>\<open>shutdown()\<close> returns normally; an
  exception that is not an instance of \<^verbatim>\<open>Exception\<close> is raised to the caller of
  \<^verbatim>\<open>shutdown()\<close>, and no error is logged.
\<close>

theorem shutdown_swallows_Exception:
  "(fst (shutdown env a) = Raises e a' \<longrightarrow> \<not> isinstance_Exception e) \<and>
   (background_tasks a = ts @ t # us \<and>
    (\<forall>t'\<in>set ts. await_task env t' = Returns () \<or>
                 await_task env t' = Raises CancelledError ()) \<and>
    await_task env t = Raises e () \<and> e \<noteq> CancelledError
      \<longrightarrow> shutdown env a =
            (if isinstance_Exception e
             then (Returns a,
                   LogInfo ''Shutting down Environmental Monitor System''
                   # concat (map (\<lambda>t. [Cancel t, Await t]) (ts @ [t]))
                   @ [LogError (''Shutdown error: '' @ str e)])
             else (Raises e a,
                   LogInfo ''Shutting down Environmental Monitor System''
                   # concat (map (\<lambda>t. [Cancel t, Await t]) (ts @ [t]))))) \<and>
   (fst (cancel_tasks env (background_tasks a)) = Returns () \<and>
    sensor_simulator a = Some s \<and> sensor_stop env s = Raises e s'
      \<longrightarrow> shutdown env a =
            (if isinstance_Exception e
             then (Returns (a\<lparr>sensor_simulator := Some s'\<rparr>),
                   LogInfo ''Shutting down Environmental Monitor System''
                   # snd (cancel_tasks env (background_tasks a))
                   @ [Stop ''sensor_simulator'', LogError (''Shutdown error: '' @ str e)])
             else (Raises e (a\<lparr>sensor_simulator := Some s'\<rparr>),
                   LogInfo ''Shutting down Environmental Monitor System''
                   # snd (cancel_tasks env (background_tasks a))
                   @ [Stop ''sensor_simulator'']))) \<and>
   (fst (cancel_tasks env (background_tasks a)) = Returns () \<and>
    stop_sensors env a = (Returns a1, evs) \<and>
    data_processor a = Some p \<and> processor_stop env p = Raises e p'
      \<longrightarrow> shutdown env a =
            (if isinstance_Exception e
             then (Returns (a1\<lparr>data_processor := Some p'\<rparr>),
                   LogInfo ''Shutting down Environmental Monitor System''
                   # snd (cancel_tasks env (background_tasks a)) @ evs
                   @ [Stop ''data_processor'', LogError (''Shutdown error: '' @ str e)])
             else (Raises e (a1\<lparr>data_processor := Some p'\<rparr>),
                   LogInfo ''Shutting down Environmental Monitor System''
                   # snd (cancel_tasks env (background_tasks a)) @ evs
                   @ [Stop ''data_processor''])))"
proof (intro conjI impI)
  assume "fst (shutdown env a) = Raises e a'"
  then show "\<not> isinstance_Exception e"
    unfolding shutdown_def by (auto split: prod.splits outcome.splits if_splits)
next
  assume h: "background_tasks a = ts @ t # us \<and>
    (\<forall>t'\<in>set ts. await_task env t' = Returns () \<or>
                 await_task env t' = Raises CancelledError ()) \<and>
    await_task env t = Raises e () \<and> e \<noteq> CancelledError"
  then have "cancel_tasks env (background_tasks a) =
     (Raises e (), concat (map (\<lambda>t. [Cancel t, Await t]) (ts @ [t])))"
    using cancel_tasks_stops_at [of ts env t e us] by simp
  then have "stop_background_tasks env a =
     (Raises e a, concat (map (\<lambda>t. [Cancel t, Await t]) (ts @ [t])))"
    by (simp add: stop_background_tasks_def)
  then show "shutdown env a =
            (if isinstance_Exception e
             then (Returns a,
                   LogInfo ''Shutting down Environmental Monitor System''
                   # concat (map (\<lambda>t. [Cancel t, Await t]) (ts @ [t]))
                   @ [LogError (''Shutdown error: '' @ str e)])
             else (Raises e a,
                   LogInfo ''Shutting down Environmental Monitor System''
                   # concat (map (\<lambda>t. [Cancel t, Await t]) (ts @ [t]))))"
    by (simp add: shutdown_def shutdown_body_def then_do_def)
next
  assume h: "fst (cancel_tasks env (background_tasks a)) = Returns () \<and>
    sensor_simulator a = Some s \<and> sensor_stop env s = Raises e s'"
  then have "stop_background_tasks env a =
      (Returns a, snd (cancel_tasks env (background_tasks a)))"
    by (auto simp add: stop_background_tasks_def split: prod.splits)
  moreover from h have "stop_sensors env a =
      (Raises e (a\<lparr>sensor_simulator := Some s'\<rparr>), [Stop ''sensor_simulator''])"
    by (simp add: stop_sensors_def)
  ultimately show "shutdown env a =
            (if isinstance_Exception e
             then (Returns (a\<lparr>sensor_simulator := Some s'\<rparr>),
                   LogInfo ''Shutting down Environmental Monitor System''
                   # snd (cancel_tasks env (background_tasks a))
                   @ [Stop ''sensor_simulator'', LogError (''Shutdown error: '' @ str e)])
             else (Raises e (a\<lparr>sensor_simulator := Some s'\<rparr>),
                   LogInfo ''Shutting down Environmental Monitor System''
                   # snd (cancel_tasks env (background_tasks a))
                   @ [Stop ''sensor_simulator'']))"
    by (simp add: shutdown_def shutdown_body_def then_do_def)
next
  assume h: "fst (cancel_tasks env (background_tasks a)) = Returns () \<and>
    stop_sensors env a = (Returns a1, evs) \<and>
    data_processor a = Some p \<and> processor_stop env p = Raises e p'"
  then have "stop_background_tasks env a =
      (Returns a, snd (cancel_tasks env (background_tasks a)))"
    by (auto simp add: stop_background_tasks_def split: prod.splits)
  moreover from h have "data_processor a1 = Some p"
    by (auto simp add: stop_sensors_def split: option.splits outcome.splits)
  with h have "stop_data_processor env a1 =
      (Raises e (a1\<lparr>data_processor := Some p'\<rparr>), [Stop ''data_processor''])"
    by (simp add: stop_data_processor_def)
  moreover from h have "stop_sensors env a = (Returns a1, evs)" by simp
  ultimately show "shutdown env a =
            (if isinstance_Exception e
             then (Returns (a1\<lparr>data_processor := Some p'\<rparr>),
                   LogInfo ''Shutting down Environmental Monitor System''
                   # snd (cancel_tasks env (background_tasks a)) @ evs
                   @ [Stop ''data_processor'', LogError (''Shutdown error: '' @ str e)])
             else (Raises e (a1\<lparr>data_processor := Some p'\<rparr>),
                   LogInfo ''Shutting down Environmental Monitor System''
                   # snd (cancel_tasks env (background_tasks a)) @ evs
                   @ [Stop ''data_processor'']))"
    by (simp add: shutdown_def shutdown_body_def then_do_def)
qed

theorem shutdown_swallows_Exception_witness:
  "shutdown env_crashed_sensor app_running =
     (Returns app_running,
      [LogInfo ''Shutting down Environmental Monitor System'',
       Cancel sensor_task, Await sensor_task, LogError ''Shutdown error: sensor failure'']) \<and>
   shutdown env_stop_fails app_started =
     (Returns app_started,
      [LogInfo ''Shutting down Environmental Monitor System'',
       Cancel sensor_task, Await sensor_task, Cancel processor_task, Await processor_task,
       Stop ''sensor_simulator'', LogError ''Shutdown error: disk full'']) \<and>
   shutdown env_stop_exits app_started =
     (Raises (BaseException ''SystemExit'' []) app_started,
      [LogInfo ''Shutting down Environmental Monitor System'',
       Cancel sensor_task, Await sensor_task, Cancel processor_task, Await processor_task,
       Stop ''sensor_simulator'']) \<and>
   \<not> isinstance_Exception (BaseException ''SystemExit'' []) \<and>
   shutdown env_processor_interrupted app_started =
     (Raises (BaseException ''KeyboardInterrupt'' []) app_started,
      [LogInfo ''Shutting down Environmental Monitor System'',
       Cancel sensor_task, Await sensor_task, Cancel processor_task, Await processor_task,
       Stop ''sensor_simulator'', Stop ''data_processor''])"
proof -
  have tasks: "background_tasks app_running = [] @ sensor_task # [processor_task]"
      "background_tasks app_started = [sensor_task, processor_task]"
    by (simp_all add: app_running_def app_started_def)
  have crash: "await_task env_crashed_sensor sensor_task =
        Raises (Exception ''RuntimeError'' ''sensor failure'') ()"
    by (simp add: env_crashed_sensor_def env_quiet_def)
  from shutdown_swallows_Exception
    [of env_crashed_sensor app_running "Exception ''RuntimeError'' ''sensor failure''" _
        "[]" sensor_task "[processor_task]"]
    tasks(1) crash
  have 1: "shutdown env_crashed_sensor app_running =
     (Returns app_running,
      [LogInfo ''Shutting down Environmental Monitor System'',
       Cancel sensor_task, Await sensor_task, LogError ''Shutdown error: sensor failure''])"
    by simp
  have loop: "cancel_tasks env_stop_fails [sensor_task, processor_task] =
        (Returns (), [Cancel sensor_task, Await sensor_task,
                      Cancel processor_task, Await processor_task])"
      "cancel_tasks env_stop_exits [sensor_task, processor_task] =
        (Returns (), [Cancel sensor_task, Await sensor_task,
                      Cancel processor_task, Await processor_task])"
      "cancel_tasks env_processor_interrupted [sensor_task, processor_task] =
        (Returns (), [Cancel sensor_task, Await sensor_task,
                      Cancel processor_task, Await processor_task])"
    by (simp_all add: env_stop_fails_def env_stop_exits_def env_processor_interrupted_def
          env_quiet_def)
  have same: "app_started\<lparr>sensor_simulator := Some False\<rparr> = app_started"
      "app_started\<lparr>data_processor := Some False\<rparr> = app_started"
    by (simp_all add: app_started_def)
  have sensor: "sensor_simulator app_started = Some False"
      "data_processor app_started = Some False"
    by (simp_all add: app_started_def)
  have fails: "sensor_stop env_stop_fails False = Raises (Exception ''OSError'' ''disk full'') False"
    by (simp add: env_stop_fails_def)
  have exits: "sensor_stop env_stop_exits False = Raises (BaseException ''SystemExit'' []) False"
    by (simp add: env_stop_exits_def)
  have interrupted: "processor_stop env_processor_interrupted False =
        Raises (BaseException ''KeyboardInterrupt'' []) False"
      "stop_sensors env_processor_interrupted app_started =
        (Returns app_started, [Stop ''sensor_simulator''])"
    by (simp_all add: env_processor_interrupted_def env_quiet_def stop_sensors_def
          app_started_def)
  from shutdown_swallows_Exception
    [of env_stop_fails app_started "Exception ''OSError'' ''disk full''" _ _ _ _ False False]
    tasks(2) loop(1) sensor(1) fails same(1)
  have 2: "shutdown env_stop_fails app_started =
     (Returns app_started,
      [LogInfo ''Shutting down Environmental Monitor System'',
       Cancel sensor_task, Await sensor_task, Cancel processor_task, Await processor_task,
       Stop ''sensor_simulator'', LogError ''Shutdown error: disk full''])"
    by simp
  from shutdown_swallows_Exception
    [of env_stop_exits app_started "BaseException ''SystemExit'' []" _ _ _ _ False False]
    tasks(2) loop(2) sensor(1) exits same(1)
  have 3: "shutdown env_stop_exits app_started =
     (Raises (BaseException ''SystemExit'' []) app_started,
      [LogInfo ''Shutting down Environmental Monitor System'',
       Cancel sensor_task, Await sensor_task, Cancel processor_task, Await processor_task,
       Stop ''sensor_simulator''])"
    by simp
  from 3 have "fst (shutdown env_stop_exits app_started) =
      Raises (BaseException ''SystemExit'' []) app_started"
    by simp
  with shutdown_swallows_Exception
    [of env_stop_exits app_started "BaseException ''SystemExit'' []" app_started]
  have 4: "\<not> isinstance_Exception (BaseException ''SystemExit'' [])" by blast
  from shutdown_swallows_Exception
    [of env_processor_interrupted app_started "BaseException ''KeyboardInterrupt'' []"
        _ _ _ _ _ _ app_started "[Stop ''sensor_simulator'']" False False]
    tasks(2) loop(3) sensor(2) interrupted same(2)
  have 5: "shutdown env_processor_interrupted app_started =
     (Raises (BaseException ''KeyboardInterrupt'' []) app_started,
      [LogInfo ''Shutting down Environmental Monitor System'',
       Cancel sensor_task, Await sensor_task, Cancel processor_task, Await processor_task,
       Stop ''sensor_simulator'', Stop ''data_processor''])"
    by simp
  from 1 2 3 4 5 show ?thesis by blast
qed

section \<open>The order of events in shutdown (C6)\<close>

lemma shutdown_events:
  "\<exists>rest. snd (shutdown env a) =
            LogInfo ''Shutting down Environmental Monitor System''
            # snd (cancel_tasks env (background_tasks a)) @ rest \<and>
          filter is_task_event rest = [] \<and>
          (filter is_stop_event rest \<noteq> [] \<longrightarrow>
             fst (cancel_tasks env (background_tasks a)) = Returns ())"
  by (auto simp add: shutdown_defs split: prod.splits outcome.splits option.splits)

text \<open>
  C6, as the specification states it: the cancellation reaches every unit before the wait
  for termination begins. The source cancels and awaits task by task: the sensor task
  has been awaited to its end before the data processor's task is cancelled. There is no
  forced teardown.
\<close>

theorem shutdown_order_counterexample:
  "snd (shutdown env_quiet app_started) =
     [LogInfo ''Shutting down Environmental Monitor System'',
      Cancel sensor_task, Await sensor_task, Cancel processor_task, Await processor_task,
      Stop ''sensor_simulator'', Stop ''data_processor'', LogInfo ''Shutdown complete'']"
  by (simp add: shutdown_defs scenario_defs)

text \<open>
  C6, amended: \<^verbatim>\<open>shutdown()\<close> handles the tasks in list order, cancelling each one and
  then awaiting it before it cancels the next (so a later task is cancelled only after the
  earlier ones have been awaited); every \<^verbatim>\<open>cancel\<close> and \<^verbatim>\<open>await\<close> comes before the first
  \<^verbatim>\<open>stop()\<close>, and a \<^verbatim>\<open>stop()\<close> is called only after all tasks of the list have been
  cancelled and awaited. The wait is unbounded and there is no forced teardown.
\<close>

theorem shutdown_order:
  "\<exists>n rest. n \<le> length (background_tasks a) \<and>
     snd (shutdown env a) =
       LogInfo ''Shutting down Environmental Monitor System''
       # concat (map (\<lambda>t. [Cancel t, Await t]) (take n (background_tasks a))) @ rest \<and>
     filter is_task_event rest = [] \<and>
     (filter is_stop_event rest \<noteq> [] \<longrightarrow> n = length (background_tasks a))"
proof -
  obtain rest where rest: "snd (shutdown env a) =
        LogInfo ''Shutting down Environmental Monitor System''
        # snd (cancel_tasks env (background_tasks a)) @ rest"
      "filter is_task_event rest = []"
      "filter is_stop_event rest \<noteq> [] \<longrightarrow>
         fst (cancel_tasks env (background_tasks a)) = Returns ()"
    using shutdown_events [of env a] by blast
  obtain n where n: "n \<le> length (background_tasks a)"
      "snd (cancel_tasks env (background_tasks a)) =
         concat (map (\<lambda>t. [Cancel t, Await t]) (take n (background_tasks a)))"
      "fst (cancel_tasks env (background_tasks a)) = Returns () \<longrightarrow>
         n = length (background_tasks a)"
    using cancel_tasks_events [of "background_tasks a" env] by blast
  from rest n show ?thesis by (intro exI [of _ n] exI [of _ rest]) simp
qed

theorem shutdown_order_witness:
  "snd (shutdown env_quiet app_started) =
     LogInfo ''Shutting down Environmental Monitor System''
     # concat (map (\<lambda>t. [Cancel t, Await t]) (take 2 (background_tasks app_started)))
     @ [Stop ''sensor_simulator'', Stop ''data_processor'', LogInfo ''Shutdown complete''] \<and>
   filter is_stop_event
     [Stop ''sensor_simulator'', Stop ''data_processor'', LogInfo ''Shutdown complete''] \<noteq> [] \<and>
   length (background_tasks app_started) = 2"
proof -
  have evs: "snd (shutdown env_quiet app_started) =
     [LogInfo ''Shutting down Environmental Monitor System'',
      Cancel sensor_task, Await sensor_task, Cancel processor_task, Await processor_task,
      Stop ''sensor_simulator'', Stop ''data_processor'', LogInfo ''Shutdown complete'']"
    by (simp add: shutdown_defs scenario_defs)
  have len: "length (background_tasks app_started) = 2"
    by (simp add: app_started_def)
  obtain n rest where nr: "n \<le> length (background_tasks app_started)"
     "snd (shutdown env_quiet app_started) =
       LogInfo ''Shutting down Environmental Monitor System''
       # concat (map (\<lambda>t. [Cancel t, Await t]) (take n (background_tasks app_started))) @ rest"
     "filter is_task_event rest = []"
     "filter is_stop_event rest \<noteq> [] \<longrightarrow> n = length (background_tasks app_started)"
    using shutdown_order [of app_started env_quiet] by blast
  from nr(1) len have "n = 0 \<or> n = 1 \<or> n = 2" by arith
  then have "n = 2"
  proof (elim disjE)
    assume "n = 0"
    with nr(2,3) evs show ?thesis by (auto simp add: app_started_def)
  next
    assume "n = 1"
    with nr(2,3) evs show ?thesis by (auto simp add: app_started_def)
  qed
  with nr(2) evs have "rest =
      [Stop ''sensor_simulator'', Stop ''data_processor'', LogInfo ''Shutdown complete'']"
    by (simp add: app_started_def)
  with nr(2) \<open>n = 2\<close> len show ?thesis by simp
qed

section \<open>What shutdown leaves behind\<close>

lemma shutdown_preserves:
  assumes "fst (shutdown env a) = Returns a' \<or> fst (shutdown env a) = Raises e a'"
  shows "background_tasks a' = background_tasks a \<and> settings a' = settings a \<and>
         (sensor_simulator a' = None \<longleftrightarrow> sensor_simulator a = None) \<and>
         (data_processor a' = None \<longleftrightarrow> data_processor a = None)"
  using assms
  by (auto simp add: shutdown_defs split: prod.splits outcome.splits option.splits if_splits)


text \<open>The stages of \<^verbatim>\<open>shutdown\<close>, taken one at a time.\<close>

lemmas shutdown_stage_defs = shutdown_def shutdown_body_def then_do_def

lemma stop_background_tasks_state:
  "stop_background_tasks env a = (Returns b, es) \<Longrightarrow> b = a"
  by (auto simp add: stop_background_tasks_def split: prod.splits outcome.splits)

lemma stop_background_tasks_same:
  "background_tasks c = background_tasks a \<Longrightarrow>
   stop_background_tasks env a = (Returns a, es) \<Longrightarrow>
   stop_background_tasks env c = (Returns c, es)"
  by (auto simp add: stop_background_tasks_def split: prod.splits outcome.splits)

lemma stop_sensors_keeps:
  "stop_sensors env a = (Returns b, es) \<Longrightarrow>
     data_processor b = data_processor a \<and> background_tasks b = background_tasks a"
  by (auto simp add: stop_sensors_def split: option.splits outcome.splits)

lemma stop_data_processor_keeps:
  "stop_data_processor env a = (Returns b, es) \<Longrightarrow>
     sensor_simulator b = sensor_simulator a \<and> background_tasks b = background_tasks a"
  by (auto simp add: stop_data_processor_def split: option.splits outcome.splits)

lemma stop_sensors_never_raises:
  "\<forall>s e s'. sensor_simulator a = Some s \<longrightarrow> sensor_stop env s \<noteq> Raises e s' \<Longrightarrow>
   stop_sensors env a \<noteq> (Raises e b, es)"
  by (auto simp add: stop_sensors_def split: option.splits outcome.splits)

lemma stop_data_processor_never_raises:
  "\<forall>p e p'. data_processor a = Some p \<longrightarrow> processor_stop env p \<noteq> Raises e p' \<Longrightarrow>
   stop_data_processor env a \<noteq> (Raises e b, es)"
  by (auto simp add: stop_data_processor_def split: option.splits outcome.splits)

text \<open>
  With an idempotent \<^verbatim>\<open>stop()\<close>, a stage that has returned does the same again, in
  any state that holds the service as the stage left it.
\<close>

lemma stop_sensors_again:
  assumes "stop_sensors env a = (Returns b, es)"
    and "\<forall>s s'. sensor_stop env s = Returns s' \<longrightarrow> sensor_stop env s' = Returns s'"
    and "sensor_simulator c = sensor_simulator b"
  shows "stop_sensors env c = (Returns c, es)"
proof (cases "sensor_simulator a")
  case None
  with assms(1) have "b = a" "es = []" by (simp_all add: stop_sensors_def)
  with None assms(3) show ?thesis by (simp add: stop_sensors_def)
next
  case (Some s)
  with assms(1) obtain s' where s': "sensor_stop env s = Returns s'"
      "b = a\<lparr>sensor_simulator := Some s'\<rparr>" "es = [Stop ''sensor_simulator'']"
    by (auto simp add: stop_sensors_def split: outcome.splits)
  from s'(1) assms(2) have "sensor_stop env s' = Returns s'" by blast
  moreover from s'(2) assms(3) have "sensor_simulator c = Some s'" by simp
  moreover from this have "c\<lparr>sensor_simulator := Some s'\<rparr> = c" by (cases c) simp
  ultimately show ?thesis using s'(3) by (simp add: stop_sensors_def)
qed

lemma stop_data_processor_again:
  assumes "stop_data_processor env a = (Returns b, es)"
    and "\<forall>p p'. processor_stop env p = Returns p' \<longrightarrow> processor_stop env p' = Returns p'"
    and "data_processor c = data_processor b"
  shows "stop_data_processor env c = (Returns c, es)"
proof (cases "data_processor a")
  case None
  with assms(1) have "b = a" "es = []" by (simp_all add: stop_data_processor_def)
  with None assms(3) show ?thesis by (simp add: stop_data_processor_def)
next
  case (Some p)
  with assms(1) obtain p' where p': "processor_stop env p = Returns p'"
      "b = a\<lparr>data_processor := Some p'\<rparr>" "es = [Stop ''data_processor'']"
    by (auto simp add: stop_data_processor_def split: outcome.splits)
  from p'(1) assms(2) have "processor_stop env p' = Returns p'" by blast
  moreover from p'(2) assms(3) have "data_processor c = Some p'" by simp
  moreover from this have "c\<lparr>data_processor := Some p'\<rparr> = c" by (cases c) simp
  ultimately show ?thesis using p'(3) by (simp add: stop_data_processor_def)
qed

lemma shutdown_stages:
  "stop_background_tasks env a = (Returns a, e0) \<Longrightarrow>
   stop_sensors env a = (Returns b, e1) \<Longrightarrow>
   stop_data_processor env b = (Returns c, e2) \<Longrightarrow>
   shutdown env a =
     (Returns c,
      LogInfo ''Shutting down Environmental Monitor System''
      # e0 @ e1 @ e2 @ [LogInfo ''Shutdown complete''])"
  by (simp add: shutdown_stage_defs)

section \<open>Health in every state (C8)\<close>




section \<open>Shutting down twice (C9)\<close>

text \<open>
  C9, as stated: a second \<^verbatim>\<open>shutdown()\<close> leaves the state the first one left. When the
  sensor simulator's \<^verbatim>\<open>stop()\<close> raises in the first \<^verbatim>\<open>shutdown()\<close>, the data processor is
  not stopped then; a second \<^verbatim>\<open>shutdown()\<close>, in which that \<^verbatim>\<open>stop()\<close> returns, goes on
  to stop the data processor. Both calls return normally, and the state after the second
  differs from the state after the first.
\<close>

theorem shutdown_twice_counterexample:
  "fst (shutdown env_flaky_stop (app_flaky True False True)) = Returns (app_flaky True True True) \<and>
   fst (shutdown env_flaky_stop (app_flaky True True True)) = Returns (app_flaky False True False) \<and>
   get (health_check env_flaky_stop default_settings (app_flaky True True True)) ''services'' =
     Some (JDict [(''sensors'', JBool True), (''processor'', JBool True)]) \<and>
   get (health_check env_flaky_stop default_settings (app_flaky False True False)) ''services'' =
     Some (JDict [(''sensors'', JBool False), (''processor'', JBool False)])"
  by (simp add: shutdown_defs scenario_defs health_check_def)

text \<open>
  C9, amended: when the first \<^verbatim>\<open>shutdown()\<close> has returned, no \<^verbatim>\<open>stop()\<close> of a service
  present raises, and \<^verbatim>\<open>stop()\<close> is idempotent for both services (called on a service
  that a returning \<^verbatim>\<open>stop()\<close> has left, it returns and leaves it as it is), a second
  \<^verbatim>\<open>shutdown()\<close> also returns normally, logs and calls the same as the first, and leaves the
  state that the first one left.
\<close>

theorem shutdown_twice:
  assumes "fst (shutdown env a) = Returns a1"
    and "\<forall>s e s'. sensor_simulator a = Some s \<longrightarrow> sensor_stop env s \<noteq> Raises e s'"
    and "\<forall>p e p'. data_processor a = Some p \<longrightarrow> processor_stop env p \<noteq> Raises e p'"
    and "\<forall>s s'. sensor_stop env s = Returns s' \<longrightarrow> sensor_stop env s' = Returns s'"
    and "\<forall>p p'. processor_stop env p = Returns p' \<longrightarrow> processor_stop env p' = Returns p'"
  shows "shutdown env a1 = (Returns a1, snd (shutdown env a))"
proof -
  obtain r0 e0 where L: "stop_background_tasks env a = (r0, e0)" by fastforce
  show ?thesis
  proof (cases r0)
    case Hangs
    with L assms(1) show ?thesis by (simp add: shutdown_stage_defs)
  next
    case (Raises e u)
    with L assms(1) have "a1 = a"
      by (auto simp add: shutdown_stage_defs stop_background_tasks_def
               split: prod.splits outcome.splits if_splits)
    with assms(1) show ?thesis by (metis prod.collapse)
  next
    case (Returns a0)
    with L have L': "stop_background_tasks env a = (Returns a, e0)"
      using stop_background_tasks_state [of env a a0 e0] by simp
    obtain r1 e1 where S: "stop_sensors env a = (r1, e1)" by fastforce
    show ?thesis
    proof (cases r1)
      case Hangs
      with L' S assms(1) show ?thesis by (simp add: shutdown_stage_defs)
    next
      case (Raises e b)
      with S assms(2) show ?thesis
        using stop_sensors_never_raises [of a env e b e1] by simp
    next
      case sensors: (Returns b)
      with S have S': "stop_sensors env a = (Returns b, e1)" by simp
      obtain r2 e2 where P: "stop_data_processor env b = (r2, e2)" by fastforce
      show ?thesis
      proof (cases r2)
        case Hangs
        with L' S' P assms(1) show ?thesis by (simp add: shutdown_stage_defs)
      next
        case (Raises e c)
        from stop_sensors_keeps [OF S'] assms(3)
        have "\<forall>p e p'. data_processor b = Some p \<longrightarrow> processor_stop env p \<noteq> Raises e p'"
          by simp
        with P Raises show ?thesis
          using stop_data_processor_never_raises [of b env e c e2] by simp
      next
        case (Returns c)
        with P have P': "stop_data_processor env b = (Returns c, e2)" by simp
        note first = shutdown_stages [OF L' S' P']
        with assms(1) have c: "a1 = c" by simp
        have tasks: "background_tasks c = background_tasks a"
          using stop_sensors_keeps [OF S'] stop_data_processor_keeps [OF P'] by simp
        have sensor: "sensor_simulator c = sensor_simulator b"
          using stop_data_processor_keeps [OF P'] by simp
        have "shutdown env c =
           (Returns c,
            LogInfo ''Shutting down Environmental Monitor System''
            # e0 @ e1 @ e2 @ [LogInfo ''Shutdown complete''])"
          by (rule shutdown_stages
               [OF stop_background_tasks_same [OF tasks L']
                   stop_sensors_again [OF S' assms(4) sensor]
                   stop_data_processor_again [OF P' assms(5) refl]])
        with first c show ?thesis by simp
      qed
    qed
  qed
qed

theorem shutdown_twice_witness:
  "fst (shutdown env_quiet app_running) = Returns app_started \<and>
   shutdown env_quiet app_started = (Returns app_started, snd (shutdown env_quiet app_running))"
proof -
  have 1: "fst (shutdown env_quiet app_running) = Returns app_started"
    by (simp add: shutdown_defs scenario_defs)
  have 2: "\<forall>s e s'. sensor_simulator app_running = Some s \<longrightarrow> sensor_stop env_quiet s \<noteq> Raises e s'"
    and 3: "\<forall>p e p'. data_processor app_running = Some p \<longrightarrow> processor_stop env_quiet p \<noteq> Raises e p'"
    and 4: "\<forall>s s'. sensor_stop env_quiet s = Returns s' \<longrightarrow> sensor_stop env_quiet s' = Returns s'"
    and 5: "\<forall>p p'. processor_stop env_quiet p = Returns p' \<longrightarrow> processor_stop env_quiet p' = Returns p'"
    by (simp_all add: env_quiet_def)
  from shutdown_twice [OF 1 2 3 4 5] 1 show ?thesis by simp
qed

section \<open>Services before tasks (C10)\<close>

text \<open>
  Where the history of a \<^verbatim>\<open>startup()\<close> divides: everything up to the second constructor
  call, and everything after it.
\<close>

lemma startup_events_split:
  "\<exists>pre post. snd (startup env a) = pre @ post \<and>
     filter is_create_event pre = [] \<and> filter is_construct_event post = [] \<and>
     (filter is_create_event post \<noteq> [] \<longrightarrow>
        filter is_construct_event pre =
          [Construct ''SensorSimulator'', Construct ''DataProcessor''] \<and>
        (\<exists>s p. SensorSimulator_init env = Inr s \<and> DataProcessor_init env = Inr p))"
proof (cases "SensorSimulator_init env")
  case (Inl e)
  then show ?thesis
    by (intro exI [of _ "snd (startup env a)"] exI [of _ "[]"])
       (simp add: startup_sensor_fails)
next
  case sensor: (Inr s)
  show ?thesis
  proof (cases "DataProcessor_init env")
    case (Inl e)
    with sensor show ?thesis
      by (intro exI [of _ "snd (startup env a)"] exI [of _ "[]"])
         (simp add: startup_processor_fails)
  next
    case (Inr p)
    with sensor show ?thesis
      by (intro exI [of _ "[LogInfo ''Starting Environmental Monitor System'',
                            Construct ''SensorSimulator'', Construct ''DataProcessor'']"]
                exI [of _ "[CreateTask ''sensor_simulator'', CreateTask ''data_processor'',
                            LogInfo ''Background services started'',
                            LogInfo ''System startup complete'']"])
         (simp add: startup_succeeds)
  qed
qed

text \<open>No method ever sets a service back to \<^verbatim>\<open>None\<close>, and only a \<^verbatim>\<open>startup()\<close> that
  has set both adds tasks.\<close>

lemma reachable_services:
  "reachable st a \<Longrightarrow>
     background_tasks a \<noteq> [] \<longrightarrow> sensor_simulator a \<noteq> None \<and> data_processor a \<noteq> None"
proof (induction rule: reachable.induct)
  case init
  show ?case by (simp add: Application_init_def)
next
  case (startup_returns a env a')
  from startup_returns(2) show ?case unfolding startup_returns_iff by auto
next
  case (startup_raises a env e a')
  from startup_raises_cases [OF startup_raises(2)] startup_raises(3)
  show ?case by auto
next
  case (shutdown_returns a env a')
  from shutdown_preserves [of env a a'] shutdown_returns(2,3)
  show ?case by simp
next
  case (shutdown_raises a env e a')
  from shutdown_preserves [of env a a' e] shutdown_raises(2,3)
  show ?case by simp
next
  case (service_activity a f g)
  then show ?case by simp
qed

text \<open>
  C10: in the history of every \<^verbatim>\<open>startup()\<close> the constructor calls all come before the
  first task is created, and a task is created only when both constructors have been
  called and have returned. So in every reachable state with a task in the list both
  services are set. When the second constructor raises, \<^verbatim>\<open>startup()\<close> raises its
  exception with no task created and the task list as it was.
\<close>

theorem services_constructed_before_tasks:
  "(\<exists>pre post. snd (startup env a) = pre @ post \<and>
      filter is_create_event pre = [] \<and> filter is_construct_event post = [] \<and>
      (filter is_create_event post \<noteq> [] \<longrightarrow>
         filter is_construct_event pre =
           [Construct ''SensorSimulator'', Construct ''DataProcessor''] \<and>
         (\<exists>s p. SensorSimulator_init env = Inr s \<and> DataProcessor_init env = Inr p))) \<and>
   (reachable st b \<and> background_tasks b \<noteq> [] \<longrightarrow>
      sensor_simulator b \<noteq> None \<and> data_processor b \<noteq> None) \<and>
   (SensorSimulator_init env = Inr s \<and> DataProcessor_init env = Inl e \<longrightarrow>
      (\<exists>a'. fst (startup env a) = Raises e a' \<and> background_tasks a' = background_tasks a) \<and>
      filter is_create_event (snd (startup env a)) = [])"
proof (intro conjI impI)
  show "\<exists>pre post. snd (startup env a) = pre @ post \<and>
      filter is_create_event pre = [] \<and> filter is_construct_event post = [] \<and>
      (filter is_create_event post \<noteq> [] \<longrightarrow>
         filter is_construct_event pre =
           [Construct ''SensorSimulator'', Construct ''DataProcessor''] \<and>
         (\<exists>s p. SensorSimulator_init env = Inr s \<and> DataProcessor_init env = Inr p))"
    by (rule startup_events_split)
next
  assume "reachable st b \<and> background_tasks b \<noteq> []"
  then show "sensor_simulator b \<noteq> None" using reachable_services [of st b] by simp
next
  assume "reachable st b \<and> background_tasks b \<noteq> []"
  then show "data_processor b \<noteq> None" using reachable_services [of st b] by simp
next
  assume "SensorSimulator_init env = Inr s \<and> DataProcessor_init env = Inl e"
  then show "\<exists>a'. fst (startup env a) = Raises e a' \<and> background_tasks a' = background_tasks a"
    by (simp add: startup_processor_fails [of env s e])
next
  assume "SensorSimulator_init env = Inr s \<and> DataProcessor_init env = Inl e"
  then show "filter is_create_event (snd (startup env a)) = []"
    by (simp add: startup_processor_fails [of env s e])
qed

theorem services_constructed_before_tasks_witness:
  "reachable default_settings app_started \<and>
   background_tasks app_started = [sensor_task, processor_task] \<and>
   sensor_simulator app_started = Some False \<and> data_processor app_started = Some False \<and>
   SensorSimulator_init env_no_processor = Inr False \<and>
   DataProcessor_init env_no_processor = Inl config_missing \<and>
   fst (startup env_no_processor (Application_init default_settings)) =
     Raises config_missing ((Application_init default_settings)\<lparr>sensor_simulator := Some False\<rparr>) \<and>
   filter is_create_event
     (snd (startup env_no_processor (Application_init default_settings))) = [] \<and>
   filter is_create_event (snd (startup env_quiet (Application_init default_settings))) =
     [CreateTask ''sensor_simulator'', CreateTask ''data_processor''] \<and>
   SensorSimulator_init env_quiet = Inr False \<and> DataProcessor_init env_quiet = Inr False"
proof -
  have run: "fst (startup env_quiet (Application_init default_settings)) = Returns app_started"
    by (simp add: startup_defs scenario_defs)
  have r: "reachable default_settings app_started"
    by (rule reachable.startup_returns [OF reachable.init run])
  have t: "background_tasks app_started = [sensor_task, processor_task]"
    by (simp add: app_started_def)
  then have ne: "background_tasks app_started \<noteq> []" by simp
  have c1: "SensorSimulator_init env_no_processor = Inr False"
    and c2: "DataProcessor_init env_no_processor = Inl config_missing"
    and c3: "SensorSimulator_init env_quiet = Inr False"
    and c4: "DataProcessor_init env_quiet = Inr False"
    by (simp_all add: env_no_processor_def env_quiet_def)
  have evs: "filter is_create_event (snd (startup env_quiet (Application_init default_settings)))
      = [CreateTask ''sensor_simulator'', CreateTask ''data_processor'']"
    by (simp add: startup_defs scenario_defs)
  have f: "fst (startup env_no_processor (Application_init default_settings)) =
     Raises config_missing ((Application_init default_settings)\<lparr>sensor_simulator := Some False\<rparr>)"
    by (simp add: startup_defs scenario_defs)
  note inst = services_constructed_before_tasks
    [of env_no_processor "Application_init default_settings" default_settings app_started
        False config_missing]
  note invariant = inst [THEN conjunct2, THEN conjunct1]
  note second_fails = inst [THEN conjunct2, THEN conjunct2]
  from invariant r ne
  have 1: "sensor_simulator app_started \<noteq> None \<and> data_processor app_started \<noteq> None"
    by blast
  have s: "sensor_simulator app_started = Some False"
    and p: "data_processor app_started = Some False"
    by (simp_all add: app_started_def)
  from second_fails c1 c2 have 2: "filter is_create_event
     (snd (startup env_no_processor (Application_init default_settings))) = []"
    by blast
  show ?thesis
    using r t s p c1 c2 f 2 evs c3 c4 by (intro conjI)
qed

end
